theory Spec2Isabelle
  imports Complex_Main "HOL-Library.Sublist" "HOL-Library.Log_Nat"
begin

section \<open>Values shared by the views\<close>

text \<open>
  A JavaScript number is an IEEE 754 double: \<open>NaN\<close>, one of the two infinities, or a
  finite value, kept here as the rational number it stands for. The two zeros are kept as
  one value: in \<open>calculateTotalPrice\<close> only \<open>Math.ceil\<close> can produce a negative zero,
  and \<open>Math.max(1, _)\<close> takes it in.
\<close>

datatype number = NaN | PosInf | NegInf | Num rat

text \<open>
  Rounding a rational to the nearest double, ties to even. For \<open>x > 0\<close>,
  \<open>floor_log2 x\<close> is the \<open>e\<close> with \<open>2^e \<le> x < 2^(e+1)\<close>, found from the bit lengths
  of numerator and denominator. A double has 53 significant bits, so the values around
  \<open>x\<close> are the multiples of \<open>2^(e - 52)\<close>; below \<open>2^-1022\<close> the spacing stays
  \<open>2^-1074\<close>, and a result of magnitude \<open>2^1024\<close> or more is an infinity.
\<close>

definition floor_log2 :: "rat \<Rightarrow> int" where
  "floor_log2 x =
     (let (a, b) = quotient_of x; k = bitlen a - bitlen b
      in if 2 powi k \<le> x then k else k - 1)"

definition round_half_even :: "rat \<Rightarrow> int" where
  "round_half_even y =
     (let f = \<lfloor>y\<rfloor>; r = y - of_int f
      in if r < 1 / 2 then f else if 1 / 2 < r then f + 1 else if even f then f else f + 1)"

definition round_double :: "rat \<Rightarrow> number" where
  "round_double x =
     (if x = 0 then Num 0
      else
        let e = max (floor_log2 \<bar>x\<bar>) (- 1022);
            q = 2 powi (e - 52);
            y = of_int (round_half_even (x / q)) * q
        in if 2 powi 1024 \<le> \<bar>y\<bar> then (if 0 < x then PosInf else NegInf) else Num y)"

text \<open>
  The operators \<open>-\<close>, \<open>/\<close>, \<open>*\<close> and \<open>Math.ceil\<close>, \<open>Math.max\<close>: on finite
  operands the exact result, rounded; \<open>NaN\<close> is passed on; the infinities follow the rules
  of the standard. A divisor zero is read as the positive zero.
\<close>

fun sign_number :: "number \<Rightarrow> int" where
  "sign_number PosInf = 1"
| "sign_number NegInf = - 1"
| "sign_number (Num a) = (if 0 < a then 1 else if a < 0 then - 1 else 0)"
| "sign_number NaN = 0"

definition infinity :: "int \<Rightarrow> number" where
  "infinity s = (if 0 < s then PosInf else if s < 0 then NegInf else NaN)"

fun minus_number :: "number \<Rightarrow> number \<Rightarrow> number" where
  "minus_number NaN y = NaN"
| "minus_number x NaN = NaN"
| "minus_number (Num a) (Num b) = round_double (a - b)"
| "minus_number PosInf PosInf = NaN"
| "minus_number NegInf NegInf = NaN"
| "minus_number PosInf y = PosInf"
| "minus_number NegInf y = NegInf"
| "minus_number x PosInf = NegInf"
| "minus_number x NegInf = PosInf"

fun divide_number :: "number \<Rightarrow> number \<Rightarrow> number" where
  "divide_number NaN y = NaN"
| "divide_number x NaN = NaN"
| "divide_number (Num a) (Num b) =
     (if b = 0 then infinity (sign_number (Num a)) else round_double (a / b))"
| "divide_number (Num a) y = Num 0"
| "divide_number x (Num b) = infinity (sign_number x * (if b < 0 then - 1 else 1))"
| "divide_number x y = NaN"

fun times_number :: "number \<Rightarrow> number \<Rightarrow> number" where
  "times_number NaN y = NaN"
| "times_number x NaN = NaN"
| "times_number (Num a) (Num b) = round_double (a * b)"
| "times_number x y = infinity (sign_number x * sign_number y)"

fun Math_ceil :: "number \<Rightarrow> number" where
  "Math_ceil (Num a) = Num (of_int \<lceil>a\<rceil>)"
| "Math_ceil x = x"

fun Math_max :: "number \<Rightarrow> number \<Rightarrow> number" where
  "Math_max NaN y = NaN"
| "Math_max x NaN = NaN"
| "Math_max PosInf y = PosInf"
| "Math_max x PosInf = PosInf"
| "Math_max NegInf y = y"
| "Math_max x NegInf = x"
| "Math_max (Num a) (Num b) = Num (max a b)"

text \<open>
  The number a JSON numeric literal of value \<open>q\<close> is read as. The backend sends a
  NUMERIC column as such a literal, so the \<open>price\<close> a view holds is \<open>JSON_number\<close> of
  the price of the row.
\<close>

definition JSON_number :: "rat \<Rightarrow> number" where
  "JSON_number q = round_double q"

text \<open>
  \<open>new Date(s).getTime()\<close>: the time value in milliseconds, an integer of magnitude at
  most \<open>8.64 * 10^15\<close>, or \<open>NaN\<close> for an invalid date. The parser is the platform's and
  is passed in as \<open>getTime\<close>, which answers \<open>None\<close> where the platform answers
  \<open>NaN\<close>.
\<close>

definition Date_getTime :: "(string \<Rightarrow> int option) \<Rightarrow> string \<Rightarrow> number" where
  "Date_getTime getTime s =
     (case getTime s of
        None \<Rightarrow> NaN
      | Some t \<Rightarrow> if \<bar>t\<bar> \<le> 8640000000000000 then Num (of_int t) else NaN)"

text \<open>The signed-in user; only \<open>user.id\<close> is read.\<close>

record User =
  id' :: string

text \<open>
  A row of table \<open>resources\<close> as \<open>select("*")\<close> delivers it. \<open>description\<close>,
  \<open>image_url\<close> and \<open>is_available\<close> are nullable columns; \<open>price\<close> is the
  NUMERIC of the row, which the view reads as \<open>JSON_number\<close> of it; \<open>created_at\<close> is
  kept as the instant the backend orders by. Texts are kept as their UTF-8 bytes.
\<close>

record Resource =
  id' :: string
  owner_id :: string
  title :: string
  description :: "string option"
  category :: string
  price :: rat
  location :: string
  image_url :: "string option"
  availability_start :: string
  availability_end :: string
  is_available :: "bool option"
  created_at :: int

text \<open>The object \<open>handleBooking\<close> passes to \<open>from("bookings").insert\<close>.\<close>

record NewBooking =
  resource_id :: string
  renter_id :: string
  owner_id :: string
  start_time :: string
  end_time :: string
  payment_method :: string
  total_price :: number
  status :: string

text \<open>The \<open>formData\<close> of the resource-creation view: every field is the text of an input.\<close>

record FormData =
  title :: string
  description :: string
  category :: string
  price :: string
  location :: string
  image_url :: string
  availability_start :: string
  availability_end :: string

text \<open>
  The object \<open>handleSubmit\<close> passes to \<open>from("resources").insert\<close>: the spread
  \<open>formData\<close> with \<open>price\<close> overwritten and \<open>owner_id\<close>, \<open>is_available\<close> added.
\<close>

record NewResource =
  title :: string
  description :: string
  category :: string
  price :: number
  location :: string
  image_url :: string
  availability_start :: string
  availability_end :: string
  owner_id :: string
  is_available :: bool

text \<open>
  A booking as the dashboard holds it; \<open>resources\<close> is the joined resource summary,
  which no mutation reads, of an arbitrary type \<open>'r\<close>.
\<close>

record 'r Booking =
  id' :: string
  start_time :: string
  end_time :: string
  total_price :: number
  status :: string
  resource_id :: string
  resources :: 'r

text \<open>
  What a handler does besides changing the view's state: notifications, navigation, the
  console, and the requests sent to the backend, in the order they happen.
\<close>

datatype variant = default_variant | destructive

datatype event =
    Toast string string variant
  | Navigate string
  | ConsoleError string
  | BookingsInsert NewBooking
  | BookingsUpdate string string
  | ResourcesInsert NewResource
  | ResourcesDelete string
  | ResourcesSelectAvailableNewestFirst

fun is_request :: "event \<Rightarrow> bool" where
  "is_request (BookingsInsert _) = True"
| "is_request (BookingsUpdate _ _) = True"
| "is_request (ResourcesInsert _) = True"
| "is_request (ResourcesDelete _) = True"
| "is_request ResourcesSelectAvailableNewestFirst = True"
| "is_request _ = False"

section \<open>Booking view (\<open>BookResource\<close>)\<close>

record BookResource =
  user :: "User option"
  resource :: "Resource option"
  loading :: bool
  booking :: bool
  startDate :: string
  endDate :: string
  paymentMethod :: string

text \<open>
  \<open>calculateTotalPrice\<close>: \<open>!startDate\<close> and \<open>!endDate\<close> hold of the empty string,
  \<open>!resource\<close> of \<open>null\<close>.
\<close>

definition calculateTotalPrice :: "(string \<Rightarrow> int option) \<Rightarrow> BookResource \<Rightarrow> number" where
  "calculateTotalPrice getTime st =
     (if startDate st = [] \<or> endDate st = [] then Num 0
      else
        (case BookResource.resource st of
           None \<Rightarrow> Num 0
         | Some r \<Rightarrow>
             let start = Date_getTime getTime (startDate st);
                 end' = Date_getTime getTime (endDate st);
                 days = Math_ceil (divide_number (minus_number end' start)
                                                 (Num (1000 * 60 * 60 * 24)))
             in times_number (Math_max (Num 1) days) (JSON_number (Resource.price r))))"

text \<open>
  \<open>handleBooking\<close>. \<open>bookings_insert\<close> is the backend's answer to the insert: \<open>None\<close>
  for no error. \<open>setBooking(true)\<close> is undone by the \<open>finally\<close> block, so the state
  returned has \<open>booking = False\<close> whenever the \<open>try\<close> block was entered.
\<close>

definition handleBooking ::
  "(string \<Rightarrow> int option) \<Rightarrow> (NewBooking \<Rightarrow> string option) \<Rightarrow> BookResource
     \<Rightarrow> BookResource \<times> event list" where
  "handleBooking getTime bookings_insert st =
     (case (BookResource.user st, BookResource.resource st) of
        (Some u, Some r) \<Rightarrow>
          if Resource.owner_id r = User.id' u
          then (st, [Toast ''Error'' ''You cannot book your own resource'' destructive])
          else
            let totalPrice = calculateTotalPrice getTime st;
                row = \<lparr>NewBooking.resource_id = Resource.id' r,
                       NewBooking.renter_id = User.id' u,
                       NewBooking.owner_id = Resource.owner_id r,
                       NewBooking.start_time = startDate st,
                       NewBooking.end_time = endDate st,
                       NewBooking.payment_method = paymentMethod st,
                       NewBooking.total_price = totalPrice,
                       NewBooking.status = ''pending''\<rparr>
            in (case bookings_insert row of
                  None \<Rightarrow>
                    (st\<lparr>booking := False\<rparr>,
                     [BookingsInsert row,
                      Toast ''Success!'' ''Booking request submitted successfully'' default_variant,
                      Navigate ''/dashboard''])
                | Some err \<Rightarrow>
                    (st\<lparr>booking := False\<rparr>,
                     [BookingsInsert row,
                      ConsoleError ''Error creating booking:'',
                      Toast ''Error'' ''Failed to create booking'' destructive]))
      | _ \<Rightarrow> (st, []))"

section \<open>Listing view (\<open>Resources\<close>)\<close>

record Resources =
  resources :: "Resource list"
  loading :: bool
  searchTerm :: string
  selectedCategory :: string

text \<open>The \<open>useState\<close> initial values.\<close>

definition Resources_initial :: Resources where
  "Resources_initial =
     \<lparr>Resources.resources = [], Resources.loading = True,
      Resources.searchTerm = [], Resources.selectedCategory = []\<rparr>"

text \<open>What an awaited select resolves to: \<open>{ data, error }\<close>, either of which may be null.\<close>

record 'a response =
  data :: "'a option"
  error :: "string option"

text \<open>
  The request \<open>fetchResources\<close> builds is
  \<open>from("resources").select("*").eq("is_available", true).order("created_at", {ascending: false})\<close>.
  Over the rows \<open>tbl\<close> of the table the backend answers it with the rows whose
  \<open>is_available\<close> is \<open>true\<close> (a null flag does not equal \<open>true\<close>), by descending
  \<open>created_at\<close>.
\<close>

definition eq_is_available :: "bool \<Rightarrow> Resource list \<Rightarrow> Resource list" where
  "eq_is_available b tbl = filter (\<lambda>r. Resource.is_available r = Some b) tbl"

definition order_created_at_descending :: "Resource list \<Rightarrow> Resource list" where
  "order_created_at_descending rows = sort_key (\<lambda>r. - Resource.created_at r) rows"

definition select_available_newest_first :: "Resource list \<Rightarrow> Resource list" where
  "select_available_newest_first tbl = order_created_at_descending (eq_is_available True tbl)"

text \<open>\<open>fetchResources\<close>: \<open>data || []\<close> on success, the list left alone when \<open>error\<close> is set.\<close>

definition fetchResources :: "Resource list response \<Rightarrow> Resources \<Rightarrow> Resources \<times> event list" where
  "fetchResources resp st =
     (case error resp of
        None \<Rightarrow>
          (st\<lparr>Resources.resources := (case data resp of None \<Rightarrow> [] | Some d \<Rightarrow> d),
              Resources.loading := False\<rparr>,
           [ResourcesSelectAvailableNewestFirst])
      | Some err \<Rightarrow>
          (st\<lparr>Resources.loading := False\<rparr>,
           [ResourcesSelectAvailableNewestFirst,
            ConsoleError ''Error fetching resources:'',
            Toast ''Error'' ''Failed to load resources'' destructive]))"

text \<open>
  \<open>String.prototype.includes\<close> as a search for the term at every position.
  \<open>String.prototype.toLowerCase\<close> is the platform's and is passed in as
  \<open>toLowerCase\<close>.
\<close>

fun includes_str :: "string \<Rightarrow> string \<Rightarrow> bool" where
  "includes_str [] t = (t = [])"
| "includes_str (c # s) t = (take (length t) (c # s) = t \<or> includes_str s t)"

text \<open>
  The callback of \<open>resources.filter\<close>. With a null description the optional chain
  \<open>resource.description?.toLowerCase()\<close> is \<open>undefined\<close>, which \<open>||\<close> skips.
\<close>

definition matchesSearch :: "(string \<Rightarrow> string) \<Rightarrow> string \<Rightarrow> Resource \<Rightarrow> bool" where
  "matchesSearch toLowerCase search r =
     (includes_str (toLowerCase (Resource.title r)) (toLowerCase search)
      \<or> (case Resource.description r of
            None \<Rightarrow> False
          | Some d \<Rightarrow> includes_str (toLowerCase d) (toLowerCase search))
      \<or> includes_str (toLowerCase (Resource.location r)) (toLowerCase search))"

definition matchesCategory :: "string \<Rightarrow> Resource \<Rightarrow> bool" where
  "matchesCategory selected r =
     (selected = [] \<or> Resource.category r = selected)"

definition filteredResources :: "(string \<Rightarrow> string) \<Rightarrow> Resources \<Rightarrow> Resource list" where
  "filteredResources toLowerCase st =
     filter (\<lambda>r. matchesSearch toLowerCase (searchTerm st) r
                \<and> matchesCategory (selectedCategory st) r)
            (Resources.resources st)"

text \<open>
  The wording of the specification, to compare \<open>includes_str\<close> with: \<open>t\<close> is a substring of
  \<open>s\<close> when \<open>s\<close> is some text, then \<open>t\<close>, then some text; a resource is included
  when the folded term is a substring of its folded title, description or location, and
  the category is unset or equal.
\<close>

definition is_substring_of :: "string \<Rightarrow> string \<Rightarrow> bool" where
  "is_substring_of t s = (\<exists>before after. s = before @ t @ after)"

definition spec_included ::
  "(string \<Rightarrow> string) \<Rightarrow> string \<Rightarrow> string \<Rightarrow> Resource \<Rightarrow> bool" where
  "spec_included toLowerCase search selected r =
     ((is_substring_of (toLowerCase search) (toLowerCase (Resource.title r))
       \<or> (\<exists>d. Resource.description r = Some d
               \<and> is_substring_of (toLowerCase search) (toLowerCase d))
       \<or> is_substring_of (toLowerCase search) (toLowerCase (Resource.location r)))
      \<and> (selected = [] \<or> Resource.category r = selected))"

section \<open>Resource creation view (\<open>AddResource\<close>)\<close>

record AddResource =
  user :: "User option"
  loading :: bool
  formData :: FormData

text \<open>
  \<open>handleSubmit\<close>. \<open>parseFloat\<close> is the platform's and is passed in;
  \<open>resources_insert\<close> is the backend's answer to the insert.
\<close>

definition handleSubmit ::
  "(string \<Rightarrow> number) \<Rightarrow> (NewResource \<Rightarrow> string option) \<Rightarrow> AddResource
     \<Rightarrow> AddResource \<times> event list" where
  "handleSubmit parseFloat resources_insert st =
     (case AddResource.user st of
        None \<Rightarrow> (st, [Navigate ''/auth''])
      | Some u \<Rightarrow>
          let f = formData st;
              row = \<lparr>NewResource.title = FormData.title f,
                     NewResource.description = FormData.description f,
                     NewResource.category = FormData.category f,
                     NewResource.price = parseFloat (FormData.price f),
                     NewResource.location = FormData.location f,
                     NewResource.image_url = FormData.image_url f,
                     NewResource.availability_start = FormData.availability_start f,
                     NewResource.availability_end = FormData.availability_end f,
                     NewResource.owner_id = User.id' u,
                     NewResource.is_available = True\<rparr>
          in (case resources_insert row of
                None \<Rightarrow>
                  (st\<lparr>AddResource.loading := False\<rparr>,
                   [ResourcesInsert row,
                    Toast ''Success!'' ''Resource added successfully'' default_variant,
                    Navigate ''/dashboard''])
              | Some err \<Rightarrow>
                  (st\<lparr>AddResource.loading := False\<rparr>,
                   [ResourcesInsert row,
                    ConsoleError ''Error adding resource:'',
                    Toast ''Error'' ''Failed to add resource'' destructive])))"

section \<open>Dashboard\<close>

record 'r Dashboard =
  user :: "User option"
  myResources :: "Resource list"
  myBookings :: "'r Booking list"
  resourceBookings :: "'r Booking list"
  loading :: bool

text \<open>\<open>deleteResource\<close>; \<open>resources_delete\<close> is the backend's answer to the delete.\<close>

definition deleteResource ::
  "(string \<Rightarrow> string option) \<Rightarrow> string \<Rightarrow> 'r Dashboard \<Rightarrow> 'r Dashboard \<times> event list" where
  "deleteResource resources_delete resourceId st =
     (case resources_delete resourceId of
        None \<Rightarrow>
          (st\<lparr>myResources := filter (\<lambda>r. Resource.id' r \<noteq> resourceId) (myResources st)\<rparr>,
           [ResourcesDelete resourceId,
            Toast ''Success'' ''Resource deleted successfully'' default_variant])
      | Some err \<Rightarrow>
          (st,
           [ResourcesDelete resourceId,
            ConsoleError ''Error deleting resource:'',
            Toast ''Error'' ''Failed to delete resource'' destructive]))"

text \<open>
  \<open>updateBookingStatus\<close>; \<open>bookings_update\<close> is the backend's answer to
  \<open>update({ status }).eq("id", bookingId)\<close>.
\<close>

definition updateBookingStatus ::
  "(string \<Rightarrow> string \<Rightarrow> string option) \<Rightarrow> string \<Rightarrow> string \<Rightarrow> 'r Dashboard
     \<Rightarrow> 'r Dashboard \<times> event list" where
  "updateBookingStatus bookings_update bookingId new_status st =
     (case bookings_update bookingId new_status of
        None \<Rightarrow>
          (st\<lparr>resourceBookings :=
                 map (\<lambda>booking. if Booking.id' booking = bookingId
                                 then booking\<lparr>Booking.status := new_status\<rparr> else booking)
                     (resourceBookings st)\<rparr>,
           [BookingsUpdate bookingId new_status,
            Toast ''Success'' (''Booking '' @ new_status @ '' successfully'') default_variant])
      | Some err \<Rightarrow>
          (st,
           [BookingsUpdate bookingId new_status,
            ConsoleError ''Error updating booking:'',
            Toast ''Error'' ''Failed to update booking'' destructive]))"

text \<open>
  The requests tab renders, per booking, the two buttons only under
  \<open>booking.status === "pending"\<close>; each button's \<open>onClick\<close> calls
  \<open>updateBookingStatus\<close> with the booking's id and a fixed status text.
\<close>

datatype request_button = Accept | Reject

definition request_buttons :: "'r Booking \<Rightarrow> request_button list" where
  "request_buttons b = (if Booking.status b = ''pending'' then [Accept, Reject] else [])"

fun button_status :: "request_button \<Rightarrow> string" where
  "button_status Accept = ''confirmed''"
| "button_status Reject = ''rejected''"

definition onClick ::
  "(string \<Rightarrow> string \<Rightarrow> string option) \<Rightarrow> request_button \<Rightarrow> 'r Booking \<Rightarrow> 'r Dashboard
     \<Rightarrow> 'r Dashboard \<times> event list" where
  "onClick bookings_update button b st =
     updateBookingStatus bookings_update (Booking.id' b) (button_status button) st"

section \<open>The schema of table \<open>bookings\<close>\<close>

text \<open>
  The migration declares
  \<open>status TEXT DEFAULT 'pending' CHECK (status IN ('pending', 'confirmed', 'cancelled', 'completed'))\<close>.
\<close>

definition bookings_status_check :: "string \<Rightarrow> bool" where
  "bookings_status_check s =
     (s \<in> set [''pending'', ''confirmed'', ''cancelled'', ''completed''])"

text \<open>
  The answer of a backend that holds this schema to an update of \<open>status\<close> on a row the
  caller may update: the statement succeeds when the new row passes the CHECK and is
  refused with a constraint violation otherwise.
\<close>

definition schema_bookings_update :: "string \<Rightarrow> string \<Rightarrow> string option" where
  "schema_bookings_update bookingId new_status =
     (if bookings_status_check new_status then None
      else Some ''new row for relation bookings violates check constraint'')"

text \<open>The status values the requests of an event list carry to table \<open>bookings\<close>.\<close>

fun written_status :: "event \<Rightarrow> string list" where
  "written_status (BookingsInsert row) = [NewBooking.status row]"
| "written_status (BookingsUpdate bookingId new_status) = [new_status]"
| "written_status _ = []"

definition written_statuses :: "event list \<Rightarrow> string list" where
  "written_statuses evs = concat (map written_status evs)"

section \<open>Sample data\<close>

text \<open>
  Concrete values the general results are instantiated at: alice owns a drill (price 10),
  a cable (price 0.1) and a ladder that is not available, carol a tent; bob books the
  drill for 25 hours; the dashboard is alice's, with two pending requests. The sample
  platform reads three date texts and folds the letters of ASCII.
\<close>

definition sample_drill :: Resource where
  "sample_drill =
     \<lparr>Resource.id' = ''r1'', Resource.owner_id = ''alice'', Resource.title = ''Cordless Drill'',
      Resource.description = Some ''18V, two batteries'', Resource.category = ''Tools'',
      Resource.price = 10, Resource.location = ''Pune'', Resource.image_url = None,
      Resource.availability_start = ''2025-01-01T00:00'',
      Resource.availability_end = ''2025-01-10T00:00'',
      Resource.is_available = Some True, Resource.created_at = 300\<rparr>"

definition sample_getTime :: "string \<Rightarrow> int option" where
  "sample_getTime s =
     (if s = ''2025-01-02T00:00'' then Some 1735776000000
      else if s = ''2025-01-03T01:00'' then Some 1735866000000
      else if s = ''2025-01-05T00:00'' then Some 1736035200000
      else None)"

definition sample_booking_form :: "string \<Rightarrow> string \<Rightarrow> string \<Rightarrow> BookResource" where
  "sample_booking_form who from until =
     \<lparr>BookResource.user = Some \<lparr>User.id' = who\<rparr>, BookResource.resource = Some sample_drill,
      BookResource.loading = False, BookResource.booking = False,
      BookResource.startDate = from, BookResource.endDate = until,
      BookResource.paymentMethod = ''cash''\<rparr>"

definition sample_cable :: Resource where
  "sample_cable = sample_drill\<lparr>Resource.title := ''Extension Cable'', Resource.price := 1 / 10\<rparr>"

definition sample_cable_form :: "string \<Rightarrow> string \<Rightarrow> BookResource" where
  "sample_cable_form from until =
     (sample_booking_form ''bob'' from until)\<lparr>BookResource.resource := Some sample_cable\<rparr>"

definition sample_row :: NewBooking where
  "sample_row =
     \<lparr>NewBooking.resource_id = ''r1'', NewBooking.renter_id = ''bob'',
      NewBooking.owner_id = ''alice'', NewBooking.start_time = ''2025-01-02T00:00'',
      NewBooking.end_time = ''2025-01-03T01:00'', NewBooking.payment_method = ''cash'',
      NewBooking.total_price = Num 20, NewBooking.status = ''pending''\<rparr>"

definition sample_tent :: Resource where
  "sample_tent =
     \<lparr>Resource.id' = ''r2'', Resource.owner_id = ''carol'', Resource.title = ''Family Tent'',
      Resource.description = None, Resource.category = ''Sports'',
      Resource.price = 5, Resource.location = ''Drill Hall Road'', Resource.image_url = None,
      Resource.availability_start = ''2025-01-01T00:00'',
      Resource.availability_end = ''2025-01-10T00:00'',
      Resource.is_available = Some True, Resource.created_at = 200\<rparr>"

definition sample_toLowerCase_char :: "char \<Rightarrow> char" where
  "sample_toLowerCase_char c =
     (let n = (of_char c :: nat)
      in if of_char (CHR ''A'') \<le> n \<and> n \<le> of_char (CHR ''Z'') then char_of (n + 32) else c)"

definition sample_toLowerCase :: "string \<Rightarrow> string" where
  "sample_toLowerCase s = map sample_toLowerCase_char s"

definition sample_listing :: "string \<Rightarrow> string \<Rightarrow> Resources" where
  "sample_listing search selected =
     \<lparr>Resources.resources = [sample_drill, sample_tent], Resources.loading = False,
      Resources.searchTerm = search, Resources.selectedCategory = selected\<rparr>"

definition sample_hidden :: Resource where
  "sample_hidden =
     \<lparr>Resource.id' = ''r3'', Resource.owner_id = ''alice'', Resource.title = ''Ladder'',
      Resource.description = Some ''3 m'', Resource.category = ''Tools'',
      Resource.price = 2, Resource.location = ''Pune'', Resource.image_url = None,
      Resource.availability_start = ''2025-01-01T00:00'',
      Resource.availability_end = ''2025-01-10T00:00'',
      Resource.is_available = Some False, Resource.created_at = 400\<rparr>"

definition sample_table :: "Resource list" where
  "sample_table =
     [sample_tent, sample_hidden, sample_drill, sample_hidden\<lparr>Resource.is_available := None\<rparr>]"

definition sample_form :: "User option \<Rightarrow> AddResource" where
  "sample_form who =
     \<lparr>AddResource.user = who, AddResource.loading = False,
      AddResource.formData =
        \<lparr>FormData.title = ''Ladder'', FormData.description = [], FormData.category = ''Tools'',
         FormData.price = ''12.50'', FormData.location = ''Pune'', FormData.image_url = [],
         FormData.availability_start = ''2025-01-01T00:00'',
         FormData.availability_end = ''2025-01-10T00:00''\<rparr>\<rparr>"

definition sample_parseFloat :: "string \<Rightarrow> number" where
  "sample_parseFloat s = (if s = ''12.50'' then Num (25 / 2) else NaN)"

definition sample_request :: "string \<Rightarrow> string \<Rightarrow> unit Booking" where
  "sample_request bookingId st =
     \<lparr>Booking.id' = bookingId, Booking.start_time = ''2025-01-02T00:00'',
      Booking.end_time = ''2025-01-03T01:00'', Booking.total_price = Num 20,
      Booking.status = st, Booking.resource_id = ''r1'', Booking.resources = ()\<rparr>"

definition sample_dashboard :: "unit Dashboard" where
  "sample_dashboard =
     \<lparr>Dashboard.user = Some \<lparr>User.id' = ''alice''\<rparr>,
      Dashboard.myResources = [sample_hidden, sample_drill],
      Dashboard.myBookings = [sample_request ''b7'' ''pending''],
      Dashboard.resourceBookings = [sample_request ''b1'' ''pending'', sample_request ''b2'' ''pending''],
      Dashboard.loading = False\<rparr>"

section \<open>Rounding to doubles\<close>

lemma floor_log2_bounds:
  assumes "0 < x"
  shows "2 powi (floor_log2 x) \<le> x" and "x < 2 powi (floor_log2 x + 1)"
proof -
  obtain a b where ab: "quotient_of x = (a, b)" by (cases "quotient_of x")
  then have b: "0 < b" and x: "x = of_int a / of_int b"
    using quotient_of_denom_pos quotient_of_div by auto
  with assms have a: "0 < a" by (simp add: zero_less_divide_iff)
  let ?k = "bitlen a - bitlen b"
  from bitlen_bounds [OF a] have a1: "2 ^ nat (bitlen a - 1) \<le> a" and a2: "a < 2 ^ nat (bitlen a)" by auto
  from bitlen_bounds [OF b] have b1: "2 ^ nat (bitlen b - 1) \<le> b" and b2: "b < 2 ^ nat (bitlen b)" by auto
  have la: "1 \<le> bitlen a" using a a2 bitlen_nonneg [of a]
    by (metis bitlen_eq_zero_iff int_one_le_iff_zero_less linorder_not_less order_le_less)
  have lb: "1 \<le> bitlen b" using b bitlen_nonneg [of b]
    by (metis bitlen_eq_zero_iff int_one_le_iff_zero_less linorder_not_less order_le_less)
  have ra1: "(2::rat) powi (bitlen a - 1) \<le> of_int a"
  proof -
    have "(of_int (2 ^ nat (bitlen a - 1)) :: rat) \<le> of_int a" using a1 by (simp only: of_int_le_iff)
    then show ?thesis using la by (simp add: power_int_def)
  qed
  have ra2: "of_int a < (2::rat) powi (bitlen a)"
  proof -
    have "(of_int a :: rat) < of_int (2 ^ nat (bitlen a))" using a2 by (simp only: of_int_less_iff)
    then show ?thesis using la by (simp add: power_int_def)
  qed
  have rb1: "(2::rat) powi (bitlen b - 1) \<le> of_int b"
  proof -
    have "(of_int (2 ^ nat (bitlen b - 1)) :: rat) \<le> of_int b" using b1 by (simp only: of_int_le_iff)
    then show ?thesis using lb by (simp add: power_int_def)
  qed
  have rb2: "of_int b < (2::rat) powi (bitlen b)"
  proof -
    have "(of_int b :: rat) < of_int (2 ^ nat (bitlen b))" using b2 by (simp only: of_int_less_iff)
    then show ?thesis using lb by (simp add: power_int_def)
  qed
  have bpos: "(0::rat) < of_int b" using b by simp
  have low: "(2::rat) powi (?k - 1) \<le> x"
  proof -
    have "(2::rat) powi (?k - 1) * of_int b \<le> 2 powi (?k - 1) * 2 powi (bitlen b)"
      using rb2 by (intro mult_left_mono) auto
    also have "\<dots> = 2 powi (bitlen a - 1)"
      by (simp flip: power_int_add)
    also have "\<dots> \<le> of_int a" by (rule ra1)
    finally show ?thesis using bpos by (simp add: x pos_le_divide_eq)
  qed
  have high: "x < (2::rat) powi (?k + 1)"
  proof -
    have "of_int a < (2::rat) powi (bitlen a)" by (rule ra2)
    also have "\<dots> = 2 powi (?k + 1) * 2 powi (bitlen b - 1)"
      by (simp flip: power_int_add)
    also have "\<dots> \<le> 2 powi (?k + 1) * of_int b"
      using rb1 by (intro mult_left_mono) auto
    finally show ?thesis using bpos by (simp add: x pos_divide_less_eq)
  qed
  show "2 powi (floor_log2 x) \<le> x"
    using low by (simp add: floor_log2_def ab Let_def)
  show "x < 2 powi (floor_log2 x + 1)"
    using high by (auto simp: floor_log2_def ab Let_def not_le)
qed

lemma powi2_le_iff: "(2::rat) powi m \<le> 2 powi n \<longleftrightarrow> m \<le> n"
proof
  assume le: "(2::rat) powi m \<le> 2 powi n"
  show "m \<le> n"
  proof (rule ccontr)
    assume "\<not> m \<le> n"
    then have "n < m" by simp
    then have "(2::rat) powi n < 2 powi m" by (intro power_int_strict_increasing) auto
    with le show False by simp
  qed
next
  assume "m \<le> n"
  then show "(2::rat) powi m \<le> 2 powi n" by (intro power_int_increasing) auto
qed

lemma powi2_less_iff: "(2::rat) powi m < 2 powi n \<longleftrightarrow> m < n"
  using powi2_le_iff [of n m] by (auto simp: not_le [symmetric])

lemma powi2_pos: "(0::rat) < 2 powi n"
  by simp

lemma powi2_split: "(2::rat) powi (m + n) = 2 powi m * 2 powi n"
  by (simp add: power_int_add)

lemma powi2_nonneg_int: "0 \<le> n \<Longrightarrow> (2::rat) powi n = of_int (2 ^ nat n)"
  by (simp add: power_int_def)

lemma floor_log2_le: "0 < x \<Longrightarrow> x < 2 powi n \<Longrightarrow> floor_log2 x < n"
  using floor_log2_bounds(1) [of x] powi2_less_iff [of "floor_log2 x" n] by simp

lemma floor_log2_ge: "0 < x \<Longrightarrow> 2 powi n \<le> x \<Longrightarrow> n \<le> floor_log2 x"
  using floor_log2_bounds(2) [of x] powi2_less_iff [of n "floor_log2 x + 1"] by simp

lemma round_half_even_of_int: "round_half_even (of_int m) = m"
  by (simp add: round_half_even_def)

lemma round_half_even_error: "\<bar>of_int (round_half_even t) - t\<bar> \<le> 1 / 2"
proof -
  have "of_int \<lfloor>t\<rfloor> \<le> t" "t < of_int \<lfloor>t\<rfloor> + 1" by linarith+
  then show ?thesis
    by (auto simp: round_half_even_def Let_def abs_le_iff)
qed

lemma round_half_even_bounds: "\<lfloor>t\<rfloor> \<le> round_half_even t" "round_half_even t \<le> \<lfloor>t\<rfloor> + 1"
  by (auto simp: round_half_even_def Let_def)

text \<open>A value that fits is returned as it is.\<close>

lemma round_double_fits:
  assumes "x \<noteq> 0" and "x / 2 powi (max (floor_log2 \<bar>x\<bar>) (- 1022) - 52) = of_int m"
    and "\<bar>x\<bar> < 2 powi 1024"
  shows "round_double x = Num x"
proof -
  let ?q = "(2::rat) powi (max (floor_log2 \<bar>x\<bar>) (- 1022) - 52)"
  have q: "?q \<noteq> 0" using powi2_pos [of "max (floor_log2 \<bar>x\<bar>) (- 1022) - 52"] by simp
  have "round_half_even (x / ?q) = m"
    using assms(2) by (simp only: round_half_even_of_int)
  moreover have "x = of_int m * ?q"
    using assms(2) q by (simp add: field_simps)
  ultimately have "of_int (round_half_even (x / ?q)) * ?q = x"
    by simp
  then show ?thesis
    using assms(1,3) by (simp add: round_double_def Let_def)
qed

lemma round_double_of_int:
  assumes "\<bar>n\<bar> \<le> 9007199254740992"
  shows "round_double (of_int n) = Num (of_int n)"
proof (cases "n = 0")
  case True
  then show ?thesis by (simp add: round_double_def)
next
  case False
  let ?x = "of_int n :: rat"
  let ?e = "floor_log2 \<bar>?x\<bar>"
  have pos: "0 < \<bar>?x\<bar>" using False by simp
  have one: "1 \<le> \<bar>?x\<bar>" using False by (simp flip: of_int_abs)
  have top: "\<bar>?x\<bar> \<le> 2 powi 53" using assms by (simp flip: of_int_abs)
  have e0: "0 \<le> ?e" using floor_log2_ge [OF pos, of 0] one by simp
  have "2 powi ?e \<le> (2::rat) powi 53" using floor_log2_bounds(1) [OF pos] top by simp
  then have e53: "?e \<le> 53" by (simp only: powi2_le_iff)
  have emax: "max ?e (- 1022) = ?e" using e0 by simp
  have big: "\<bar>?x\<bar> < 2 powi 1024"
  proof -
    have "(2::rat) powi 53 < 2 powi 1024" by (simp only: powi2_less_iff)
    with top show ?thesis by simp
  qed
  have "\<exists>m. ?x / 2 powi (?e - 52) = of_int m"
  proof (cases "?e \<le> 52")
    case True
    have "?x / 2 powi (?e - 52) = ?x * 2 powi (52 - ?e)"
      by (simp add: power_int_diff field_simps)
    also have "\<dots> = of_int (n * 2 ^ nat (52 - ?e))"
      using True by (simp add: powi2_nonneg_int)
    finally show ?thesis by blast
  next
    case False
    with e53 have e: "?e = 53" by simp
    have "2 powi 53 \<le> \<bar>?x\<bar>" using floor_log2_bounds(1) [OF pos] e by simp
    with top have "\<bar>?x\<bar> = 2 powi 53" by simp
    then have "\<bar>n\<bar> = 9007199254740992" by (simp flip: of_int_abs)
    then have "n = 9007199254740992 \<or> n = - 9007199254740992" by auto
    then have "?x / 2 powi (?e - 52) = of_int (n div 2)"
      using e by auto
    then show ?thesis by blast
  qed
  then obtain m where "?x / 2 powi (max ?e (- 1022) - 52) = of_int m"
    using emax by auto
  from round_double_fits [OF _ this big] False show ?thesis by simp
qed

lemma round_double_error_small:
  assumes "x \<noteq> 0" and "\<bar>x\<bar> < 134217728"
  shows "\<exists>y. round_double x = Num y \<and> \<bar>y - x\<bar> \<le> 1 / 134217728"
proof -
  let ?e = "max (floor_log2 \<bar>x\<bar>) (- 1022)"
  let ?q = "(2::rat) powi (?e - 52)"
  let ?y = "of_int (round_half_even (x / ?q)) * ?q"
  have pos: "0 < \<bar>x\<bar>" using assms(1) by simp
  have "\<bar>x\<bar> < 2 powi 27" using assms(2) by simp
  from floor_log2_le [OF pos this] have e: "?e \<le> 26" by simp
  have qpos: "0 < ?q" by (rule powi2_pos)
  have "?q \<le> 2 powi (- 26)" using e by (simp only: powi2_le_iff)
  then have qle: "?q \<le> 1 / 67108864" by (simp add: power_int_minus_divide)
  have "\<bar>?y - x\<bar> = \<bar>of_int (round_half_even (x / ?q)) - x / ?q\<bar> * ?q"
  proof -
    have "?y - x = (of_int (round_half_even (x / ?q)) - x / ?q) * ?q"
      using qpos by (simp add: field_simps)
    then show ?thesis using qpos by (simp add: abs_mult)
  qed
  also have "\<dots> \<le> (1 / 2) * ?q"
    using round_half_even_error [of "x / ?q"] qpos by (intro mult_right_mono) auto
  also have "\<dots> \<le> 1 / 134217728" using qle by simp
  finally have err: "\<bar>?y - x\<bar> \<le> 1 / 134217728" .
  then have "\<bar>?y\<bar> < 134217729" using assms(2) by linarith
  moreover have "(134217729::rat) \<le> 2 powi 1024" by simp
  ultimately have "\<not> 2 powi 1024 \<le> \<bar>?y\<bar>" by linarith
  then have "round_double x = Num ?y"
    using assms(1) by (simp add: round_double_def Let_def)
  with err show ?thesis by blast
qed

lemma powi2_53: "(2::rat) powi (e + 1) = 9007199254740992 * 2 powi (e - 52)"
proof -
  have "(2::rat) powi (53 + (e - 52)) = 2 powi 53 * 2 powi (e - 52)" by (rule powi2_split)
  then show ?thesis by (simp add: add.commute)
qed

lemma round_double_idem:
  assumes "round_double x = Num y"
  shows "round_double y = Num y"
proof (cases "y = 0")
  case True
  then show ?thesis by (simp add: round_double_def)
next
  case False
  with assms have x0: "x \<noteq> 0" by (auto simp: round_double_def)
  let ?e = "max (floor_log2 \<bar>x\<bar>) (- 1022)"
  let ?q = "(2::rat) powi (?e - 52)"
  let ?n = "round_half_even (x / ?q)"
  from assms x0 have y: "y = of_int ?n * ?q" and fin: "\<bar>y\<bar> < 2 powi 1024"
    by (auto simp: round_double_def Let_def not_le split: if_splits)
  have qpos: "0 < ?q" by (rule powi2_pos)
  have xpos: "0 < \<bar>x\<bar>" using x0 by simp
  have ypos: "0 < \<bar>y\<bar>" using False by simp
  have xq: "\<bar>x\<bar> / ?q < 2 powi 53"
  proof -
    have "floor_log2 \<bar>x\<bar> + 1 \<le> ?e + 1" by simp
    then have "(2::rat) powi (floor_log2 \<bar>x\<bar> + 1) \<le> 2 powi (?e + 1)"
      by (simp only: powi2_le_iff)
    with floor_log2_bounds(2) [OF xpos] have "\<bar>x\<bar> < 2 powi (?e + 1)" by simp
    also have "\<dots> = 9007199254740992 * ?q" by (rule powi2_53)
    finally show ?thesis using qpos by (simp add: pos_divide_less_eq)
  qed
  have nb: "\<bar>?n\<bar> \<le> 9007199254740992"
  proof -
    have "\<bar>x / ?q\<bar> < 9007199254740992" using xq qpos by (simp add: abs_mult)
    then have "x / ?q < 9007199254740992" "- 9007199254740992 < x / ?q" by linarith+
    then have "\<lfloor>x / ?q\<rfloor> < 9007199254740992" "- 9007199254740992 \<le> \<lfloor>x / ?q\<rfloor>"
      by (simp_all add: floor_less_iff le_floor_iff)
    with round_half_even_bounds [of "x / ?q"] show ?thesis by linarith
  qed
  have yabs: "\<bar>y\<bar> = of_int \<bar>?n\<bar> * ?q"
    using qpos by (simp add: y abs_mult)
  have ytop: "\<bar>y\<bar> \<le> 2 powi (?e + 1)"
  proof -
    have "(of_int \<bar>?n\<bar> :: rat) \<le> 9007199254740992"
      using nb by (simp only: of_int_le_numeral_iff)
    then have "of_int \<bar>?n\<bar> * ?q \<le> 9007199254740992 * ?q"
      using qpos by (intro mult_right_mono) simp_all
    also have "\<dots> = 2 powi (?e + 1)" by (rule powi2_53 [symmetric])
    finally show ?thesis by (simp only: yabs)
  qed
  let ?e' = "max (floor_log2 \<bar>y\<bar>) (- 1022)"
  have "2 powi floor_log2 \<bar>y\<bar> \<le> (2::rat) powi (?e + 1)"
    using floor_log2_bounds(1) [OF ypos] ytop by simp
  then have "floor_log2 \<bar>y\<bar> \<le> ?e + 1" by (simp only: powi2_le_iff)
  then have e': "?e' \<le> ?e + 1" by simp
  have "\<exists>m. y / 2 powi (?e' - 52) = of_int m"
  proof (cases "?e' \<le> ?e")
    case True
    have "y / 2 powi (?e' - 52) = of_int ?n * (2 powi (?e - 52) * 2 powi (52 - ?e'))"
      by (simp add: y power_int_diff field_simps)
    also have "2 powi (?e - 52) * (2::rat) powi (52 - ?e') = 2 powi (?e - ?e')"
      by (simp flip: powi2_split)
    also have "\<dots> = of_int (2 ^ nat (?e - ?e'))"
      using True by (intro powi2_nonneg_int) simp
    finally have "y / 2 powi (?e' - 52) = of_int (?n * 2 ^ nat (?e - ?e'))" by simp
    then show ?thesis by blast
  next
    case False
    with e' have eq: "?e' = ?e + 1" by simp
    then have "floor_log2 \<bar>y\<bar> = ?e + 1" by (simp add: max_def split: if_splits)
    with floor_log2_bounds(1) [OF ypos] have "2 powi (?e + 1) \<le> \<bar>y\<bar>" by simp
    with ytop have "\<bar>y\<bar> = 2 powi (?e + 1)" by simp
    also have "\<dots> = 9007199254740992 * ?q" by (rule powi2_53)
    finally have "of_int \<bar>?n\<bar> * ?q = 9007199254740992 * ?q" by (simp only: yabs)
    then have "(of_int \<bar>?n\<bar> :: rat) = 9007199254740992" using qpos by simp
    then have "\<bar>?n\<bar> = 9007199254740992" by (simp only: of_int_eq_numeral_iff)
    then have n: "?n = 9007199254740992 \<or> ?n = - 9007199254740992" by linarith
    have qq: "2 powi (?e' - 52) = 2 * ?q"
      by (simp add: eq power_int_add power_int_diff)
    have "y / (2 * ?q) = of_int ?n / 2"
      using qpos by (subst y) simp
    then have "y / 2 powi (?e' - 52) = of_int ?n / 2"
      by (simp only: qq)
    also have "\<dots> = of_int (?n div 2)" using n by auto
    finally show ?thesis by blast
  qed
  then obtain m where "y / 2 powi (?e' - 52) = of_int m" by blast
  from round_double_fits [OF False this fin] show ?thesis .
qed

lemma ceiling_days_rounded:
  assumes "\<bar>d\<bar> \<le> 9007199254740992"
  shows "\<exists>y. round_double (of_int d / 86400000) = Num y
             \<and> \<lceil>y\<rceil> = \<lceil>(of_int d :: rat) / 86400000\<rceil>"
proof (cases "d mod 86400000 = 0")
  case True
  then obtain k where d: "d = 86400000 * k" by (auto simp: mod_eq_0_iff_dvd)
  have "\<bar>k\<bar> \<le> 9007199254740992" using assms d by (simp add: abs_mult)
  from round_double_of_int [OF this] show ?thesis by (simp add: d)
next
  case False
  let ?x = "(of_int d :: rat) / 86400000"
  let ?k = "d div 86400000" and ?r = "d mod 86400000"
  have r: "1 \<le> ?r" "?r \<le> 86399999"
    using False pos_mod_bound [of 86400000 d] pos_mod_sign [of 86400000 d] by linarith+
  have "d = 86400000 * ?k + ?r" by simp
  then have "(of_int d :: rat) = 86400000 * of_int ?k + of_int ?r"
    by (metis of_int_add of_int_mult of_int_numeral)
  then have x: "?x = of_int ?k + of_int ?r / 86400000" by (simp add: field_simps)
  have lo: "of_int ?k + 1 / 86400000 \<le> ?x"
    using r(1) by (simp add: x divide_right_mono)
  have hi: "?x \<le> of_int ?k + 1 - 1 / 86400000"
  proof -
    have "(of_int ?r :: rat) \<le> 86399999" using r(2) by (simp only: of_int_le_numeral_iff)
    then have "(of_int ?r :: rat) / 86400000 \<le> 86399999 / 86400000"
      by (intro divide_right_mono) auto
    then show ?thesis by (simp add: x)
  qed
  have x0: "?x \<noteq> 0" using False by auto
  have "\<bar>(of_int d :: rat)\<bar> \<le> 9007199254740992" using assms by (simp flip: of_int_abs)
  then have "\<bar>?x\<bar> < 134217728" by (simp add: field_simps)
  from round_double_error_small [OF x0 this]
  obtain y where y: "round_double ?x = Num y" and err: "\<bar>y - ?x\<bar> \<le> 1 / 134217728" by blast
  define x where "x = ?x"
  define k where "k = (of_int ?k :: rat)"
  from lo hi err have lo': "k + 1 / 86400000 \<le> x" and hi': "x \<le> k + 1 - 1 / 86400000"
    and err': "\<bar>y - x\<bar> \<le> 1 / 134217728"
    by (simp_all only: x_def k_def)
  have "k < y" using lo' err' by linarith
  moreover have "y \<le> k + 1" using hi' err' by linarith
  moreover have "k < x" "x \<le> k + 1" using lo' hi' by linarith+
  ultimately have "\<lceil>y\<rceil> = ?k + 1" "\<lceil>x\<rceil> = ?k + 1"
    unfolding k_def by (simp_all add: ceiling_eq_iff)
  then show ?thesis using y by (simp add: x_def)
qed

section \<open>The price of a booking\<close>

lemma ceil_days_eq_div: "\<lceil>(of_int d :: rat) / 86400000\<rceil> = - ((- d) div 86400000)"
  using ceiling_divide_eq_div [of d 86400000, where ?'a = rat] by simp

lemma days_nonpositive_span: "e \<le> s \<Longrightarrow> max 1 \<lceil>(of_int (e - s) :: rat) / 86400000\<rceil> = 1"
  by (simp add: max_def ceiling_le_iff field_simps)

lemma JSON_number_of_int: "\<bar>n\<bar> \<le> 9007199254740992 \<Longrightarrow> JSON_number (of_int n) = Num (of_int n)"
  by (simp add: JSON_number_def round_double_of_int)

lemma times_one_JSON_number: "times_number (Num 1) (JSON_number p) = JSON_number p"
proof (cases "JSON_number p")
  case (Num d)
  then have "round_double d = Num d"
    unfolding JSON_number_def by (rule round_double_idem)
  with Num show ?thesis by simp
qed (simp_all add: infinity_def)

lemma days_of_span:
  assumes "\<bar>d\<bar> \<le> 9007199254740992"
  shows "Math_ceil (divide_number (Num (of_int d)) (Num 86400000))
           = Num (of_int \<lceil>(of_int d :: rat) / 86400000\<rceil>)"
proof -
  from ceiling_days_rounded [OF assms] obtain y
    where "round_double (of_int d / 86400000) = Num y"
      and "\<lceil>y\<rceil> = \<lceil>(of_int d :: rat) / 86400000\<rceil>" by blast
  then show ?thesis by simp
qed

lemma Date_getTime_Num:
  "Date_getTime getTime x = Num (of_int t) \<Longrightarrow> getTime x = Some t \<and> \<bar>t\<bar> \<le> 8640000000000000"
  by (auto simp: Date_getTime_def split: option.splits if_splits)

lemma calculateTotalPrice_unparsed:
  assumes "startDate st \<noteq> []" and "endDate st \<noteq> []" and "BookResource.resource st = Some r"
    and "Date_getTime getTime (startDate st) = NaN \<or> Date_getTime getTime (endDate st) = NaN"
  shows "calculateTotalPrice getTime st = NaN"
proof -
  have "minus_number (Date_getTime getTime (endDate st)) (Date_getTime getTime (startDate st)) = NaN"
    using assms(4) by (cases "Date_getTime getTime (endDate st)") auto
  then show ?thesis
    using assms(1-3) by (simp add: calculateTotalPrice_def Let_def)
qed

lemma calculateTotalPrice_parsed:
  assumes "startDate st \<noteq> []" and "endDate st \<noteq> []" and "BookResource.resource st = Some r"
    and "getTime (startDate st) = Some s" and "getTime (endDate st) = Some e"
    and "\<bar>s\<bar> \<le> 8640000000000000" and "\<bar>e\<bar> \<le> 8640000000000000"
    and "\<bar>e - s\<bar> \<le> 9007199254740992"
  shows "calculateTotalPrice getTime st =
           times_number (Num (of_int (max 1 \<lceil>(of_int (e - s) :: rat) / 86400000\<rceil>)))
                        (JSON_number (Resource.price r))"
proof -
  have start: "Date_getTime getTime (startDate st) = Num (of_int s)"
    and end': "Date_getTime getTime (endDate st) = Num (of_int e)"
    using assms(4-7) by (simp_all add: Date_getTime_def)
  have "minus_number (Num (of_int e)) (Num (of_int s)) = round_double (of_int (e - s))"
    by simp
  also have "\<dots> = Num (of_int (e - s))"
    using assms(8) by (rule round_double_of_int)
  finally have span: "minus_number (Num (of_int e)) (Num (of_int s)) = Num (of_int (e - s))" .
  have "(1000 * 60 * 60 * 24 :: rat) = 86400000" by simp
  then show ?thesis
    using assms(1-3) days_of_span [OF assms(8)]
    by (simp only: calculateTotalPrice_def Let_def start end' span)
       (simp add: of_int_max)
qed

text \<open>
  Claim C1, as the program has it. With a resource loaded and both date inputs set: when
  one of the two texts gives no time value (\<open>getTime\<close> is \<open>NaN\<close>), the total is
  \<open>NaN\<close>; when they give the instants \<open>s\<close> and \<open>e\<close>, in milliseconds and at most
  \<open>2^53\<close> apart, the total is the product, as doubles, of
  \<open>max(1, ceil((e - s) / 86400000))\<close> and the price the view holds, with the number of
  days exact. In particular a span of 25 hours at price 10 gives 20, and a span that is
  zero or negative gives the price the view holds.
\<close>

theorem calculateTotalPrice_formula:
  assumes "startDate st \<noteq> []" and "endDate st \<noteq> []" and "BookResource.resource st = Some r"
  shows "(Date_getTime getTime (startDate st) = NaN \<or> Date_getTime getTime (endDate st) = NaN \<longrightarrow>
            calculateTotalPrice getTime st = NaN)
       \<and> (Date_getTime getTime (startDate st) = Num (of_int s)
          \<and> Date_getTime getTime (endDate st) = Num (of_int e)
          \<and> \<bar>e - s\<bar> \<le> 9007199254740992 \<longrightarrow>
            calculateTotalPrice getTime st =
              times_number (Num (of_int (max 1 \<lceil>(of_int (e - s) :: rat) / 86400000\<rceil>)))
                           (JSON_number (Resource.price r))
          \<and> (e - s = 25 * 3600000 \<and> Resource.price r = 10 \<longrightarrow>
                calculateTotalPrice getTime st = Num 20)
          \<and> (e \<le> s \<longrightarrow> calculateTotalPrice getTime st = JSON_number (Resource.price r)))"
proof (intro conjI impI)
  assume "Date_getTime getTime (startDate st) = NaN \<or> Date_getTime getTime (endDate st) = NaN"
  with assms show "calculateTotalPrice getTime st = NaN"
    by (rule calculateTotalPrice_unparsed)
next
  assume parsed: "Date_getTime getTime (startDate st) = Num (of_int s)
          \<and> Date_getTime getTime (endDate st) = Num (of_int e)
          \<and> \<bar>e - s\<bar> \<le> 9007199254740992"
  then have "getTime (startDate st) = Some s \<and> \<bar>s\<bar> \<le> 8640000000000000"
    and "getTime (endDate st) = Some e \<and> \<bar>e\<bar> \<le> 8640000000000000"
    by (auto dest: Date_getTime_Num)
  with assms parsed have general: "calculateTotalPrice getTime st =
      times_number (Num (of_int (max 1 \<lceil>(of_int (e - s) :: rat) / 86400000\<rceil>)))
                   (JSON_number (Resource.price r))"
    by (intro calculateTotalPrice_parsed) simp_all
  show "calculateTotalPrice getTime st =
      times_number (Num (of_int (max 1 \<lceil>(of_int (e - s) :: rat) / 86400000\<rceil>)))
                   (JSON_number (Resource.price r))"
    by (rule general)
  show "calculateTotalPrice getTime st = Num 20"
    if "e - s = 25 * 3600000 \<and> Resource.price r = 10"
  proof -
    have days: "\<lceil>(of_int (e - s) :: rat) / 86400000\<rceil> = 2"
      unfolding ceil_days_eq_div using that by simp
    have "JSON_number 10 = Num 10" using JSON_number_of_int [of 10] by simp
    moreover have "round_double 20 = Num 20" using round_double_of_int [of 20] by simp
    ultimately show ?thesis using general days that by simp
  qed
  show "calculateTotalPrice getTime st = JSON_number (Resource.price r)" if "e \<le> s"
    using general days_nonpositive_span [OF that] by (simp add: times_one_JSON_number)
qed

lemma ceiling_25_24: "\<lceil>(25::rat) / 24\<rceil> = 2"
  by (simp add: ceiling_eq_iff)

lemma JSON_number_10: "JSON_number 10 = Num 10"
  using JSON_number_of_int [of 10] by simp

lemma round_double_10: "round_double 10 = Num 10"
  using round_double_of_int [of 10] by simp

lemma round_double_20: "round_double 20 = Num 20"
  using round_double_of_int [of 20] by simp

lemma sample_total:
  "calculateTotalPrice sample_getTime
     (sample_booking_form who ''2025-01-02T00:00'' ''2025-01-03T01:00'') = Num 20"
proof -
  let ?st = "sample_booking_form who ''2025-01-02T00:00'' ''2025-01-03T01:00''"
  have "calculateTotalPrice sample_getTime ?st =
          times_number (Num (of_int (max 1 \<lceil>(of_int (1735866000000 - 1735776000000) :: rat) / 86400000\<rceil>)))
                       (JSON_number (Resource.price sample_drill))"
    by (rule calculateTotalPrice_parsed)
       (simp_all add: sample_booking_form_def sample_getTime_def)
  moreover have "\<lceil>(of_int (1735866000000 - 1735776000000) :: rat) / 86400000\<rceil> = 2"
    unfolding ceil_days_eq_div by simp
  moreover have "JSON_number 10 = Num 10" using JSON_number_of_int [of 10] by simp
  moreover have "round_double 20 = Num 20" using round_double_of_int [of 20] by simp
  ultimately show ?thesis by (simp add: sample_drill_def)
qed

theorem calculateTotalPrice_formula_witness:
  "calculateTotalPrice sample_getTime
     (sample_booking_form ''bob'' ''2025-01-02T00:00'' ''2025-01-03T01:00'') = Num 20
   \<and> calculateTotalPrice sample_getTime
     (sample_booking_form ''bob'' ''2025-01-03T01:00'' ''2025-01-02T00:00'')
       = JSON_number (Resource.price sample_drill)
   \<and> calculateTotalPrice sample_getTime
     (sample_booking_form ''bob'' ''2025-01-02T00:00'' ''not a date'') = NaN"
  using calculateTotalPrice_formula
          [of "sample_booking_form ''bob'' ''2025-01-02T00:00'' ''2025-01-03T01:00''"
              sample_drill sample_getTime 1735776000000 1735866000000]
        calculateTotalPrice_formula
          [of "sample_booking_form ''bob'' ''2025-01-03T01:00'' ''2025-01-02T00:00''"
              sample_drill sample_getTime 1735866000000 1735776000000]
        calculateTotalPrice_formula
          [of "sample_booking_form ''bob'' ''2025-01-02T00:00'' ''not a date''"
              sample_drill sample_getTime 0 0]
  by (simp add: sample_booking_form_def sample_getTime_def sample_drill_def Date_getTime_def
        ceiling_25_24 JSON_number_10 round_double_10 round_double_20)

text \<open>
  The claim as the specification words it fails on set inputs in two ways. An end date
  that the platform does not read as a date, here the text \<open>10000-01-01T00:00\<close>, gives
  \<open>NaN\<close> and no product at all. And the product is one of doubles: three days at the
  stored price 0.1 give 0.30000000000000004, which is not 3 times 0.1.
\<close>

lemma sample_cable_total:
  "calculateTotalPrice sample_getTime
     (sample_cable_form ''2025-01-02T00:00'' ''2025-01-05T00:00'')
   = Num (1351079888211149 / 4503599627370496)"
proof -
  let ?st = "sample_cable_form ''2025-01-02T00:00'' ''2025-01-05T00:00''"
  have "calculateTotalPrice sample_getTime ?st =
          times_number (Num (of_int (max 1 \<lceil>(of_int (1736035200000 - 1735776000000) :: rat) / 86400000\<rceil>)))
                       (JSON_number (Resource.price sample_cable))"
    by (rule calculateTotalPrice_parsed)
       (simp_all add: sample_cable_form_def sample_booking_form_def sample_getTime_def)
  moreover have "\<lceil>(of_int (1736035200000 - 1735776000000) :: rat) / 86400000\<rceil> = 3"
    unfolding ceil_days_eq_div by simp
  moreover have "JSON_number (1 / 10) = Num (3602879701896397 / 36028797018963968)"
    by code_simp
  moreover have "round_double (3 * (3602879701896397 / 36028797018963968))
                   = Num (1351079888211149 / 4503599627370496)"
    by code_simp
  ultimately show ?thesis by (simp add: sample_cable_def sample_drill_def)
qed

theorem calculateTotalPrice_formula_counterexample:
  "calculateTotalPrice sample_getTime
     (sample_booking_form ''bob'' ''2025-01-02T00:00'' ''10000-01-01T00:00'') = NaN
   \<and> calculateTotalPrice sample_getTime
       (sample_cable_form ''2025-01-02T00:00'' ''2025-01-05T00:00'')
       = Num (1351079888211149 / 4503599627370496)
   \<and> (1351079888211149 / 4503599627370496 :: rat) \<noteq> 3 * (1 / 10)"
proof -
  have "calculateTotalPrice sample_getTime
          (sample_booking_form ''bob'' ''2025-01-02T00:00'' ''10000-01-01T00:00'') = NaN"
    by (rule calculateTotalPrice_unparsed [where r = sample_drill])
       (simp_all add: sample_booking_form_def sample_getTime_def Date_getTime_def)
  then show ?thesis using sample_cable_total by simp
qed

text \<open>
  Claim C10. When the start date input, the end date input or the loaded resource is
  absent, \<open>calculateTotalPrice\<close> returns 0 and not the charge of one day; the formula of
  C1 is reached only with a resource loaded and both dates set.
\<close>

theorem calculateTotalPrice_absent:
  assumes "startDate st = [] \<or> endDate st = [] \<or> BookResource.resource st = None"
  shows "calculateTotalPrice getTime st = Num 0"
  using assms by (auto simp: calculateTotalPrice_def)

theorem calculateTotalPrice_absent_witness:
  "calculateTotalPrice sample_getTime (sample_booking_form ''bob'' [] ''2025-01-03T01:00'') = Num 0
   \<and> calculateTotalPrice sample_getTime (sample_booking_form ''bob'' ''2025-01-02T00:00'' []) = Num 0
   \<and> calculateTotalPrice sample_getTime
        ((sample_booking_form ''bob'' ''2025-01-02T00:00'' ''2025-01-03T01:00'')
           \<lparr>BookResource.resource := None\<rparr>) = Num 0"
  using calculateTotalPrice_absent
          [of "sample_booking_form ''bob'' [] ''2025-01-03T01:00''" sample_getTime]
        calculateTotalPrice_absent
          [of "sample_booking_form ''bob'' ''2025-01-02T00:00'' []" sample_getTime]
        calculateTotalPrice_absent
          [of "(sample_booking_form ''bob'' ''2025-01-02T00:00'' ''2025-01-03T01:00'')
                 \<lparr>BookResource.resource := None\<rparr>" sample_getTime]
  by (simp add: sample_booking_form_def)

section \<open>Submitting a booking\<close>

text \<open>
  Claim C4. Every booking row that \<open>handleBooking\<close> sends to the insert has status
  \<open>pending\<close>, whatever the dates, the payment method and the rest of the view's state are.
\<close>

theorem handleBooking_inserts_pending:
  assumes "BookingsInsert row \<in> set (snd (handleBooking getTime bookings_insert st))"
  shows "NewBooking.status row = ''pending''"
  using assms
  by (auto simp: handleBooking_def Let_def split: option.splits if_splits)

lemma sample_booking_form_fields:
  "BookResource.user (sample_booking_form who from until) = Some \<lparr>User.id' = who\<rparr>"
  "BookResource.resource (sample_booking_form who from until) = Some sample_drill"
  "startDate (sample_booking_form who from until) = from"
  "endDate (sample_booking_form who from until) = until"
  "paymentMethod (sample_booking_form who from until) = ''cash''"
  "(sample_booking_form who from until)\<lparr>booking := False\<rparr> = sample_booking_form who from until"
  by (simp_all add: sample_booking_form_def)

lemma sample_submission:
  "handleBooking sample_getTime (\<lambda>row. None)
     (sample_booking_form ''bob'' ''2025-01-02T00:00'' ''2025-01-03T01:00'')
   = (sample_booking_form ''bob'' ''2025-01-02T00:00'' ''2025-01-03T01:00'',
      [BookingsInsert sample_row,
       Toast ''Success!'' ''Booking request submitted successfully'' default_variant,
       Navigate ''/dashboard''])"
  by (simp add: handleBooking_def Let_def sample_total sample_booking_form_fields)
     (simp add: sample_row_def sample_drill_def)

theorem handleBooking_inserts_pending_witness:
  "BookingsInsert sample_row
     \<in> set (snd (handleBooking sample_getTime (\<lambda>row. None)
                   (sample_booking_form ''bob'' ''2025-01-02T00:00'' ''2025-01-03T01:00'')))
   \<and> NewBooking.status sample_row = ''pending''"
  using handleBooking_inserts_pending
          [of sample_row sample_getTime "\<lambda>row. None"
              "sample_booking_form ''bob'' ''2025-01-02T00:00'' ''2025-01-03T01:00''"]
  by (simp add: sample_submission)

text \<open>
  Claim C5. When the signed-in user is the owner of the loaded resource, the submission
  ends with the notification alone: the state is untouched and no request, so no booking
  insert, goes to the backend.
\<close>

theorem handleBooking_owner_blocked:
  assumes "BookResource.user st = Some u" and "BookResource.resource st = Some r"
    and "Resource.owner_id r = User.id' u"
  shows "handleBooking getTime bookings_insert st =
           (st, [Toast ''Error'' ''You cannot book your own resource'' destructive])
       \<and> (\<forall>ev \<in> set (snd (handleBooking getTime bookings_insert st)). \<not> is_request ev)"
  using assms by (simp add: handleBooking_def)

theorem handleBooking_owner_blocked_witness:
  "handleBooking sample_getTime (\<lambda>row. None)
     (sample_booking_form ''alice'' ''2025-01-02T00:00'' ''2025-01-03T01:00'')
   = (sample_booking_form ''alice'' ''2025-01-02T00:00'' ''2025-01-03T01:00'',
      [Toast ''Error'' ''You cannot book your own resource'' destructive])"
  using handleBooking_owner_blocked
          [of "sample_booking_form ''alice'' ''2025-01-02T00:00'' ''2025-01-03T01:00''"
              "\<lparr>User.id' = ''alice''\<rparr>" sample_drill sample_getTime "\<lambda>row. None"]
  by (simp add: sample_booking_form_def sample_drill_def)

section \<open>Filtering the listing\<close>

lemma includes_str_iff_substring: "includes_str s t \<longleftrightarrow> is_substring_of t s"
proof (induction s)
  case Nil
  show ?case by (auto simp: is_substring_of_def)
next
  case (Cons c s)
  have here: "take (length t) (c # s) = t \<longleftrightarrow> (\<exists>after. c # s = t @ after)"
  proof
    assume "take (length t) (c # s) = t"
    then have "c # s = t @ drop (length t) (c # s)"
      by (metis append_take_drop_id)
    then show "\<exists>after. c # s = t @ after" ..
  next
    assume "\<exists>after. c # s = t @ after"
    then show "take (length t) (c # s) = t" by auto
  qed
  have later: "is_substring_of t (c # s) \<longleftrightarrow> (\<exists>after. c # s = t @ after) \<or> is_substring_of t s"
  proof
    assume "is_substring_of t (c # s)"
    then obtain before after where eq: "c # s = before @ t @ after"
      unfolding is_substring_of_def by blast
    show "(\<exists>after. c # s = t @ after) \<or> is_substring_of t s"
    proof (cases before)
      case Nil
      with eq show ?thesis by auto
    next
      case (Cons b bs)
      with eq have "s = bs @ t @ after" by simp
      then show ?thesis unfolding is_substring_of_def by blast
    qed
  next
    assume "(\<exists>after. c # s = t @ after) \<or> is_substring_of t s"
    then show "is_substring_of t (c # s)"
    proof
      assume "\<exists>after. c # s = t @ after"
      then obtain after where "c # s = [] @ t @ after" by auto
      then show ?thesis unfolding is_substring_of_def by blast
    next
      assume "is_substring_of t s"
      then obtain before after where "s = before @ t @ after"
        unfolding is_substring_of_def by blast
      then have "c # s = (c # before) @ t @ after" by simp
      then show ?thesis unfolding is_substring_of_def by blast
    qed
  qed
  show ?case using Cons.IH here later by simp
qed

lemma matches_iff_spec_included:
  "matchesSearch toLowerCase search r \<and> matchesCategory selected r
     \<longleftrightarrow> spec_included toLowerCase search selected r"
  by (auto simp: matchesSearch_def matchesCategory_def spec_included_def
        includes_str_iff_substring split: option.splits)

lemma filteredResources_eq_filter:
  "filteredResources toLowerCase st =
     filter (spec_included toLowerCase (searchTerm st) (selectedCategory st))
            (Resources.resources st)"
  by (simp add: filteredResources_def matches_iff_spec_included)

text \<open>
  Claim C6. Whatever the platform's \<open>toLowerCase\<close> is: a resource is in the filtered
  result exactly when it is in the fetched list, the folded search term is a substring of
  its folded title, description (when it has one) or location, and no category is selected
  or its category is the selected one.
\<close>

theorem filteredResources_iff:
  "r \<in> set (filteredResources toLowerCase st) \<longleftrightarrow>
     r \<in> set (Resources.resources st)
     \<and> spec_included toLowerCase (searchTerm st) (selectedCategory st) r"
  by (simp add: filteredResources_def matches_iff_spec_included)

lemma sample_listing_filtered:
  "filteredResources sample_toLowerCase (sample_listing ''DRILL'' ''Tools'') = [sample_drill]"
  "filteredResources sample_toLowerCase (sample_listing ''DRILL'' []) = [sample_drill, sample_tent]"
  "filteredResources sample_toLowerCase (sample_listing ''TENT'' []) = [sample_tent]"
  by code_simp+

lemma sample_tent_neq_drill: "sample_tent \<noteq> sample_drill"
  by (simp add: sample_tent_def sample_drill_def)

theorem filteredResources_iff_witness:
  "spec_included sample_toLowerCase ''DRILL'' ''Tools'' sample_drill
   \<and> \<not> spec_included sample_toLowerCase ''DRILL'' ''Tools'' sample_tent
   \<and> spec_included sample_toLowerCase ''DRILL'' [] sample_tent
   \<and> \<not> spec_included sample_toLowerCase ''TENT'' [] sample_drill
   \<and> spec_included sample_toLowerCase ''TENT'' [] sample_tent"
proof -
  let ?tools = "sample_listing ''DRILL'' ''Tools''" and ?all = "sample_listing ''DRILL'' []"
    and ?tents = "sample_listing ''TENT'' []"
  have "sample_drill \<in> set (filteredResources sample_toLowerCase ?tools)"
    by (simp add: sample_listing_filtered)
  with filteredResources_iff [of sample_drill sample_toLowerCase ?tools]
  have drill: "spec_included sample_toLowerCase ''DRILL'' ''Tools'' sample_drill"
    by (simp add: sample_listing_def)
  have "sample_tent \<notin> set (filteredResources sample_toLowerCase ?tools)"
    by (simp add: sample_listing_filtered sample_tent_neq_drill)
  with filteredResources_iff [of sample_tent sample_toLowerCase ?tools]
  have tent: "\<not> spec_included sample_toLowerCase ''DRILL'' ''Tools'' sample_tent"
    by (simp add: sample_listing_def)
  have "sample_tent \<in> set (filteredResources sample_toLowerCase ?all)"
    by (simp add: sample_listing_filtered)
  with filteredResources_iff [of sample_tent sample_toLowerCase ?all]
  have tent_all: "spec_included sample_toLowerCase ''DRILL'' [] sample_tent"
    by (simp add: sample_listing_def)
  have "sample_drill \<notin> set (filteredResources sample_toLowerCase ?tents)"
    using sample_tent_neq_drill by (simp add: sample_listing_filtered)
  with filteredResources_iff [of sample_drill sample_toLowerCase ?tents]
  have drill_miss: "\<not> spec_included sample_toLowerCase ''TENT'' [] sample_drill"
    by (simp add: sample_listing_def)
  have "sample_tent \<in> set (filteredResources sample_toLowerCase ?tents)"
    by (simp add: sample_listing_filtered)
  with filteredResources_iff [of sample_tent sample_toLowerCase ?tents]
  have tent_hit: "spec_included sample_toLowerCase ''TENT'' [] sample_tent"
    by (simp add: sample_listing_def)
  from drill tent tent_all drill_miss tent_hit show ?thesis by simp
qed

section \<open>What the listing shows\<close>

lemma select_available_only:
  "r \<in> set (select_available_newest_first tbl) \<Longrightarrow> Resource.is_available r = Some True"
  by (simp add: select_available_newest_first_def order_created_at_descending_def
        eq_is_available_def)

lemma select_newest_first:
  "sorted_wrt (\<lambda>a b. Resource.created_at b \<le> Resource.created_at a)
     (select_available_newest_first tbl)"
proof -
  have "sorted (map (\<lambda>r. - Resource.created_at r) (select_available_newest_first tbl))"
    by (simp add: select_available_newest_first_def order_created_at_descending_def)
  then show ?thesis by (simp add: sorted_map)
qed

text \<open>
  Claim C7. The listing view's one request asks for the available resources, newest
  first. Starting from the empty list of the mount, whether the backend answers that request
  over any table \<open>tbl\<close> or fails, and whatever search term and category are chosen
  afterwards (and whatever the platform's \<open>toLowerCase\<close> is), every resource shown has
  its availability flag true and the resources shown are in descending order of creation
  time.
\<close>

theorem listing_available_newest_first:
  assumes "Resources.resources st = []"
    and "error resp = None \<longrightarrow> data resp = None \<or> data resp = Some (select_available_newest_first tbl)"
  shows "filter is_request (snd (fetchResources resp st)) = [ResourcesSelectAvailableNewestFirst]
       \<and> (\<forall>r \<in> set (filteredResources toLowerCase
                        ((fst (fetchResources resp st))\<lparr>searchTerm := search, selectedCategory := selected\<rparr>)).
             Resource.is_available r = Some True)
       \<and> sorted_wrt (\<lambda>a b. Resource.created_at b \<le> Resource.created_at a)
            (filteredResources toLowerCase
               ((fst (fetchResources resp st))\<lparr>searchTerm := search, selectedCategory := selected\<rparr>))"
proof -
  let ?fetched = "Resources.resources (fst (fetchResources resp st))"
  have req: "filter is_request (snd (fetchResources resp st)) = [ResourcesSelectAvailableNewestFirst]"
    by (simp add: fetchResources_def split: option.splits)
  have cases: "?fetched = [] \<or> ?fetched = select_available_newest_first tbl"
    using assms by (auto simp: fetchResources_def split: option.splits)
  have avail: "\<forall>r \<in> set ?fetched. Resource.is_available r = Some True"
    using cases select_available_only by auto
  have sorted: "sorted_wrt (\<lambda>a b. Resource.created_at b \<le> Resource.created_at a) ?fetched"
    using cases select_newest_first by auto
  show ?thesis
    using req avail sorted by (simp add: filteredResources_def sorted_wrt_filter)
qed

lemma sample_table_selected:
  "select_available_newest_first sample_table = [sample_drill, sample_tent]"
  by code_simp

lemma sample_fetch_filtered:
  "filteredResources sample_toLowerCase
     ((fst (fetchResources \<lparr>data = Some [sample_drill, sample_tent], error = None\<rparr> Resources_initial))
        \<lparr>searchTerm := [], selectedCategory := []\<rparr>) = [sample_drill, sample_tent]"
  by code_simp

theorem listing_available_newest_first_witness:
  "filteredResources sample_toLowerCase
     ((fst (fetchResources
              \<lparr>data = Some (select_available_newest_first sample_table), error = None\<rparr>
              Resources_initial))
        \<lparr>searchTerm := [], selectedCategory := []\<rparr>) = [sample_drill, sample_tent]
   \<and> Resource.is_available sample_drill = Some True
   \<and> Resource.is_available sample_tent = Some True
   \<and> Resource.created_at sample_tent \<le> Resource.created_at sample_drill"
  using listing_available_newest_first
          [of Resources_initial
              "\<lparr>data = Some (select_available_newest_first sample_table), error = None\<rparr>"
              sample_table sample_toLowerCase "[]" "[]"]
  by (simp add: sample_table_selected sample_fetch_filtered) (simp add: Resources_initial_def)

section \<open>Creating a resource\<close>

text \<open>
  Claim C8. Submitting the creation form without a signed-in user only navigates to
  \<open>/auth\<close>, with no insert. With a user, the one request is the insert of a row whose
  \<open>owner_id\<close> is the user's id, whose \<open>is_available\<close> is true and whose \<open>price\<close> is
  \<open>parseFloat\<close> of the price field.
\<close>

theorem handleSubmit_insert:
  "(AddResource.user st = None \<longrightarrow>
      handleSubmit parseFloat resources_insert st = (st, [Navigate ''/auth'']))
   \<and> (\<forall>u. AddResource.user st = Some u \<longrightarrow>
        (\<exists>row. filter is_request (snd (handleSubmit parseFloat resources_insert st))
                  = [ResourcesInsert row]
              \<and> NewResource.owner_id row = User.id' u
              \<and> NewResource.is_available row = True
              \<and> NewResource.price row = parseFloat (FormData.price (formData st))))"
  by (auto simp: handleSubmit_def Let_def split: option.splits)

theorem handleSubmit_insert_witness:
  "handleSubmit sample_parseFloat (\<lambda>row. None) (sample_form None)
     = (sample_form None, [Navigate ''/auth''])
   \<and> (\<exists>row. filter is_request
               (snd (handleSubmit sample_parseFloat (\<lambda>row. None)
                       (sample_form (Some \<lparr>User.id' = ''alice''\<rparr>))))
             = [ResourcesInsert row]
           \<and> NewResource.owner_id row = ''alice''
           \<and> NewResource.is_available row = True
           \<and> NewResource.price row = Num (25 / 2))"
  using handleSubmit_insert [of "sample_form None" sample_parseFloat "\<lambda>row. None"]
        handleSubmit_insert [of "sample_form (Some \<lparr>User.id' = ''alice''\<rparr>)"
                                sample_parseFloat "\<lambda>row. None"]
  by (simp add: sample_form_def sample_parseFloat_def)

section \<open>The dashboard's mutations\<close>

lemma deleteResource_success:
  "resources_delete resourceId = None \<Longrightarrow>
   fst (deleteResource resources_delete resourceId st)
     = st\<lparr>myResources := filter (\<lambda>r. Resource.id' r \<noteq> resourceId) (myResources st)\<rparr>"
  by (simp add: deleteResource_def)

lemma updateBookingStatus_success:
  "bookings_update bookingId s = None \<Longrightarrow>
   fst (updateBookingStatus bookings_update bookingId s st)
     = st\<lparr>resourceBookings :=
            map (\<lambda>b. if Booking.id' b = bookingId then b\<lparr>Booking.status := s\<rparr> else b)
                (resourceBookings st)\<rparr>"
  by (simp add: updateBookingStatus_def)

text \<open>
  Claim C9. After a delete that the backend accepted for id \<open>r\<close>, the owned-resources
  list is the previous one without the entries of id \<open>r\<close>, and both booking lists are as
  before. After a status update that the backend accepted for id \<open>b\<close>, the owned-resources
  list and the bookings made are as before, and the booking requests are the previous ones,
  position by position, with the status replaced in those of id \<open>b\<close> and nothing else changed.
\<close>

theorem dashboard_mutations_frame:
  "(resources_delete r = None \<longrightarrow>
      myResources (fst (deleteResource resources_delete r st))
        = filter (\<lambda>x. Resource.id' x \<noteq> r) (myResources st)
      \<and> myBookings (fst (deleteResource resources_delete r st)) = myBookings st
      \<and> resourceBookings (fst (deleteResource resources_delete r st)) = resourceBookings st)
   \<and> (bookings_update b s = None \<longrightarrow>
      myResources (fst (updateBookingStatus bookings_update b s st)) = myResources st
      \<and> myBookings (fst (updateBookingStatus bookings_update b s st)) = myBookings st
      \<and> length (resourceBookings (fst (updateBookingStatus bookings_update b s st)))
          = length (resourceBookings st)
      \<and> (\<forall>i < length (resourceBookings st).
            resourceBookings (fst (updateBookingStatus bookings_update b s st)) ! i
              = (if Booking.id' (resourceBookings st ! i) = b
                 then (resourceBookings st ! i)\<lparr>Booking.status := s\<rparr>
                 else resourceBookings st ! i)))"
  by (simp add: deleteResource_success updateBookingStatus_success)

theorem dashboard_mutations_frame_witness:
  "myResources (fst (deleteResource (\<lambda>r. None) ''r3'' sample_dashboard)) = [sample_drill]
   \<and> myBookings (fst (deleteResource (\<lambda>r. None) ''r3'' sample_dashboard))
       = [sample_request ''b7'' ''pending'']
   \<and> resourceBookings (fst (deleteResource (\<lambda>r. None) ''r3'' sample_dashboard))
       = [sample_request ''b1'' ''pending'', sample_request ''b2'' ''pending'']
   \<and> resourceBookings (fst (updateBookingStatus (\<lambda>b s. None) ''b2'' ''confirmed'' sample_dashboard)) ! 0
       = sample_request ''b1'' ''pending''
   \<and> resourceBookings (fst (updateBookingStatus (\<lambda>b s. None) ''b2'' ''confirmed'' sample_dashboard)) ! 1
       = sample_request ''b2'' ''confirmed''
   \<and> myBookings (fst (updateBookingStatus (\<lambda>b s. None) ''b2'' ''confirmed'' sample_dashboard))
       = [sample_request ''b7'' ''pending'']
   \<and> myResources (fst (updateBookingStatus (\<lambda>b s. None) ''b2'' ''confirmed'' sample_dashboard))
       = [sample_hidden, sample_drill]"
  using dashboard_mutations_frame
          [of "\<lambda>r. None" "''r3''" sample_dashboard "\<lambda>b s. None" "''b2''" "''confirmed''"]
  by (simp add: sample_dashboard_def sample_request_def sample_hidden_def sample_drill_def)

section \<open>Accepting and rejecting a request\<close>

lemma request_buttons_pending_only:
  "button \<in> set (request_buttons b) \<longleftrightarrow> Booking.status b = ''pending''"
  by (cases button) (simp_all add: request_buttons_def)

lemma onClick_accepted:
  assumes "bookings_update (Booking.id' b) (button_status button) = None"
    and "x \<in> set (resourceBookings (fst (onClick bookings_update button b st)))"
    and "Booking.id' x = Booking.id' b"
  shows "Booking.status x = button_status button \<and> request_buttons x = []"
proof -
  from assms(1,2) obtain y where "y \<in> set (resourceBookings st)"
    and x: "x = (if Booking.id' y = Booking.id' b
                 then y\<lparr>Booking.status := button_status button\<rparr> else y)"
    by (auto simp: onClick_def updateBookingStatus_def)
  with assms(3) have "x = y\<lparr>Booking.status := button_status button\<rparr>"
    by (auto split: if_splits)
  then show ?thesis
    by (cases button) (simp_all add: request_buttons_def)
qed

lemma schema_accepts_confirmed: "schema_bookings_update bookingId (button_status Accept) = None"
  by (simp add: schema_bookings_update_def bookings_status_check_def)

lemma schema_refuses_rejected: "schema_bookings_update bookingId (button_status Reject) \<noteq> None"
  by (simp add: schema_bookings_update_def bookings_status_check_def)

lemma handleBooking_status_checked:
  "s \<in> set (written_statuses (snd (handleBooking getTime bookings_insert st)))
   \<Longrightarrow> bookings_status_check s"
  by (auto simp: handleBooking_def written_statuses_def bookings_status_check_def Let_def
        split: option.splits if_splits)

lemma onClick_Accept_status_checked:
  "s \<in> set (written_statuses (snd (onClick bookings_update Accept b st)))
   \<Longrightarrow> bookings_status_check s"
  by (auto simp: onClick_def updateBookingStatus_def written_statuses_def
        bookings_status_check_def split: option.splits)

lemma onClick_Reject_refused:
  "fst (onClick schema_bookings_update Reject b st) = st"
  using schema_refuses_rejected [of "Booking.id' b"]
  by (auto simp: onClick_def updateBookingStatus_def split: option.splits)

text \<open>
  Claim C2. Every status the application writes is one of \<open>pending\<close>, \<open>confirmed\<close>,
  \<open>cancelled\<close>, \<open>completed\<close>. The Reject button, offered on a pending request, breaks
  this: the status it sends is \<open>rejected\<close>, which the CHECK of the schema does not admit.
\<close>

theorem reject_writes_status_outside_check:
  "Reject \<in> set (request_buttons (sample_request ''b1'' ''pending''))
   \<and> written_statuses
        (snd (onClick schema_bookings_update Reject (sample_request ''b1'' ''pending'')
                sample_dashboard)) = [''rejected'']
   \<and> \<not> bookings_status_check ''rejected''"
  by (simp add: request_buttons_def sample_request_def onClick_def updateBookingStatus_def
        schema_bookings_update_def bookings_status_check_def written_statuses_def)

text \<open>
  Claim C3. Accept sets a request to \<open>confirmed\<close>, Reject sets it to \<open>rejected\<close>, and a
  request that went through either no longer shows the buttons. Against the schema of the
  migration Reject does not get there: the update is refused, the dashboard is left as it
  was, and the request is still pending with both buttons shown.
\<close>

theorem reject_leaves_booking_pending:
  "Reject \<in> set (request_buttons (sample_request ''b1'' ''pending''))
   \<and> onClick schema_bookings_update Reject (sample_request ''b1'' ''pending'') sample_dashboard
       = (sample_dashboard,
          [BookingsUpdate ''b1'' ''rejected'',
           ConsoleError ''Error updating booking:'',
           Toast ''Error'' ''Failed to update booking'' destructive])
   \<and> map Booking.status (resourceBookings sample_dashboard) = [''pending'', ''pending'']
   \<and> map request_buttons (resourceBookings sample_dashboard)
       = [[Accept, Reject], [Accept, Reject]]"
  by (simp add: request_buttons_def sample_request_def onClick_def updateBookingStatus_def
        schema_bookings_update_def bookings_status_check_def sample_dashboard_def)

end
